theory Spec2Isabelle
  imports Main
begin

section \<open>The tool layer of \<^verbatim>\<open>main.py\<close>\<close>

text \<open>
  \<^verbatim>\<open>main.py\<close> registers sixteen coroutines as tools. Each one builds a Python dict
  from its arguments and awaits one handler imported from \<^verbatim>\<open>tools.browser\<close>, passing
  the module-level \<^verbatim>\<open>context\<close> object. The handlers are not part of the file; they are
  parameters of the model.

  The arguments are typed by the annotations the tool framework validates against:
  \<^verbatim>\<open>str\<close> is a \<^typ>\<open>string\<close>, \<^verbatim>\<open>int\<close> is an \<^typ>\<open>int\<close>, and a parameter with the
  default \<^verbatim>\<open>None\<close> is an option.
\<close>

subsection \<open>Values and params dicts\<close>

datatype pyval = PyStr string | PyInt int

type_synonym params = "string \<rightharpoonup> pyval"

text \<open>Python truthiness of an optional string: \<^verbatim>\<open>None\<close> and \<^verbatim>\<open>""\<close> are falsy.\<close>

fun truthy :: "string option \<Rightarrow> bool" where
  "truthy None = False"
| "truthy (Some s) = (s \<noteq> [])"

subsection \<open>The imported handlers\<close>

text \<open>
  A handler receives the context object (and, all but two of them, a params dict), may
  change the context, and produces a result of type \<open>'r\<close>: the text it returns, or
  whatever stands for an exception it raises, which the awaiting wrapper propagates
  unchanged.
\<close>

record ('c, 'r) handlers =
  get_tabs_tool :: "'c \<Rightarrow> 'r \<times> 'c"
  screenshot_tool :: "'c \<Rightarrow> 'r \<times> 'c"
  navigate_tool :: "'c \<Rightarrow> params \<Rightarrow> 'r \<times> 'c"
  select_tab_tool :: "'c \<Rightarrow> params \<Rightarrow> 'r \<times> 'c"
  new_tab_tool :: "'c \<Rightarrow> params \<Rightarrow> 'r \<times> 'c"
  close_tab_tool :: "'c \<Rightarrow> params \<Rightarrow> 'r \<times> 'c"
  search_google_tool :: "'c \<Rightarrow> params \<Rightarrow> 'r \<times> 'c"
  click_element_tool :: "'c \<Rightarrow> params \<Rightarrow> 'r \<times> 'c"
  input_text_tool :: "'c \<Rightarrow> params \<Rightarrow> 'r \<times> 'c"
  send_keys_tool :: "'c \<Rightarrow> params \<Rightarrow> 'r \<times> 'c"
  grab_dom_tool :: "'c \<Rightarrow> params \<Rightarrow> 'r \<times> 'c"
  capture_with_highlights_tool :: "'c \<Rightarrow> params \<Rightarrow> 'r \<times> 'c"
  add_assistant_message_tool :: "'c \<Rightarrow> params \<Rightarrow> 'r \<times> 'c"
  query_history_by_date_tool :: "'c \<Rightarrow> params \<Rightarrow> 'r \<times> 'c"
  query_interests_by_date_tool :: "'c \<Rightarrow> params \<Rightarrow> 'r \<times> 'c"

subsection \<open>Module state\<close>

text \<open>
  The globals of the module: the shared \<^verbatim>\<open>context\<close> object (field \<open>shared_context\<close>), the
  \<^verbatim>\<open>ws_server\<close> handle (\<^verbatim>\<open>None\<close> until the listener is started) and the log records
  written so far, each with the name of the logger it went through. The handle is a
  listening socket that \<^verbatim>\<open>close()\<close> stops and \<^verbatim>\<open>wait_closed()\<close> sees released.
\<close>

datatype listener = Listening | Closing | Closed

record 'c module_state =
  shared_context :: "'c"
  ws_server :: "listener option"
  log_records :: "(string \<times> string) list"

definition log_info :: "string \<Rightarrow> string \<Rightarrow> 'c module_state \<Rightarrow> 'c module_state" where
  "log_info name msg s = s\<lparr>log_records := log_records s @ [(name, msg)]\<rparr>"

text \<open>Awaiting a handler on the shared context: the result is returned, the context kept.\<close>

definition await_handler ::
  "('c \<Rightarrow> 'r \<times> 'c) \<Rightarrow> 'c module_state \<Rightarrow> 'r \<times> 'c module_state" where
  "await_handler h s = (case h (shared_context s) of (r, c) \<Rightarrow> (r, s\<lparr>shared_context := c\<rparr>))"

subsection \<open>The registered tools\<close>

definition get_tabs :: "('c, 'r) handlers \<Rightarrow> 'c module_state \<Rightarrow> 'r \<times> 'c module_state" where
  "get_tabs H s = await_handler (get_tabs_tool H) s"

definition screenshot :: "('c, 'r) handlers \<Rightarrow> 'c module_state \<Rightarrow> 'r \<times> 'c module_state" where
  "screenshot H s = await_handler (screenshot_tool H) s"

definition navigate ::
  "('c, 'r) handlers \<Rightarrow> string \<Rightarrow> 'c module_state \<Rightarrow> 'r \<times> 'c module_state" where
  "navigate H url s =
     await_handler (\<lambda>c. navigate_tool H c [''url'' \<mapsto> PyStr url]) s"

definition navigate_tab ::
  "('c, 'r) handlers \<Rightarrow> string \<Rightarrow> int \<Rightarrow> 'c module_state \<Rightarrow> 'r \<times> 'c module_state" where
  "navigate_tab H url tab_id s =
     await_handler (\<lambda>c. navigate_tool H c [''url'' \<mapsto> PyStr url, ''tab_id'' \<mapsto> PyInt tab_id]) s"

definition select_tab ::
  "('c, 'r) handlers \<Rightarrow> int \<Rightarrow> 'c module_state \<Rightarrow> 'r \<times> 'c module_state" where
  "select_tab H tab_id s =
     await_handler (\<lambda>c. select_tab_tool H c [''tab_id'' \<mapsto> PyInt tab_id]) s"

definition new_tab ::
  "('c, 'r) handlers \<Rightarrow> string option \<Rightarrow> 'c module_state \<Rightarrow> 'r \<times> 'c module_state" where
  "new_tab H url s =
     (let params = Map.empty;
          params = (if truthy url then params(''url'' \<mapsto> PyStr (the url)) else params)
      in await_handler (\<lambda>c. new_tab_tool H c params) s)"

text \<open>
  The four lines shared by the tools with an optional \<^verbatim>\<open>tab_id\<close>:
  \<^verbatim>\<open>if tab_id is not None: params["tab_id"] = tab_id\<close>.
\<close>

fun set_tab_id :: "int option \<Rightarrow> params \<Rightarrow> params" where
  "set_tab_id None params = params"
| "set_tab_id (Some tab_id) params = params(''tab_id'' \<mapsto> PyInt tab_id)"

definition close_tab ::
  "('c, 'r) handlers \<Rightarrow> int option \<Rightarrow> 'c module_state \<Rightarrow> 'r \<times> 'c module_state" where
  "close_tab H tab_id s =
     (let params = Map.empty;
          params = set_tab_id tab_id params
      in await_handler (\<lambda>c. close_tab_tool H c params) s)"

definition search_google ::
  "('c, 'r) handlers \<Rightarrow> string \<Rightarrow> int option \<Rightarrow> 'c module_state \<Rightarrow> 'r \<times> 'c module_state" where
  "search_google H query tab_id s =
     (let params = [''query'' \<mapsto> PyStr query];
          params = set_tab_id tab_id params
      in await_handler (\<lambda>c. search_google_tool H c params) s)"

definition click_element ::
  "('c, 'r) handlers \<Rightarrow> string \<Rightarrow> int option \<Rightarrow> 'c module_state \<Rightarrow> 'r \<times> 'c module_state" where
  "click_element H element_id tab_id s =
     (let params = [''element_id'' \<mapsto> PyStr element_id];
          params = set_tab_id tab_id params
      in await_handler (\<lambda>c. click_element_tool H c params) s)"

definition input_text ::
  "('c, 'r) handlers \<Rightarrow> string \<Rightarrow> string \<Rightarrow> int option \<Rightarrow> 'c module_state
     \<Rightarrow> 'r \<times> 'c module_state" where
  "input_text H element_id text tab_id s =
     (let params = [''element_id'' \<mapsto> PyStr element_id, ''text'' \<mapsto> PyStr text];
          params = set_tab_id tab_id params
      in await_handler (\<lambda>c. input_text_tool H c params) s)"

definition send_keys ::
  "('c, 'r) handlers \<Rightarrow> string \<Rightarrow> int option \<Rightarrow> 'c module_state \<Rightarrow> 'r \<times> 'c module_state" where
  "send_keys H keys tab_id s =
     (let params = [''keys'' \<mapsto> PyStr keys];
          params = set_tab_id tab_id params
      in await_handler (\<lambda>c. send_keys_tool H c params) s)"

definition grab_dom ::
  "('c, 'r) handlers \<Rightarrow> int option \<Rightarrow> 'c module_state \<Rightarrow> 'r \<times> 'c module_state" where
  "grab_dom H tab_id s =
     (let params = Map.empty;
          params = set_tab_id tab_id params
      in await_handler (\<lambda>c. grab_dom_tool H c params) s)"

definition capture_with_highlights ::
  "('c, 'r) handlers \<Rightarrow> int option \<Rightarrow> 'c module_state \<Rightarrow> 'r \<times> 'c module_state" where
  "capture_with_highlights H tab_id s =
     (let params = Map.empty;
          params = set_tab_id tab_id params
      in await_handler (\<lambda>c. capture_with_highlights_tool H c params) s)"

definition add_assistant_message ::
  "('c, 'r) handlers \<Rightarrow> string \<Rightarrow> 'c module_state \<Rightarrow> 'r \<times> 'c module_state" where
  "add_assistant_message H message s =
     await_handler (\<lambda>c. add_assistant_message_tool H c [''message'' \<mapsto> PyStr message]) s"

definition query_history_by_date ::
  "('c, 'r) handlers \<Rightarrow> string \<Rightarrow> 'c module_state \<Rightarrow> 'r \<times> 'c module_state" where
  "query_history_by_date H date s =
     (let s = log_info ''root'' (''query_history_by_date tool called with date='' @ date) s
      in await_handler (\<lambda>c. query_history_by_date_tool H c [''date'' \<mapsto> PyStr date]) s)"

definition query_interests_by_date ::
  "('c, 'r) handlers \<Rightarrow> string \<Rightarrow> 'c module_state \<Rightarrow> 'r \<times> 'c module_state" where
  "query_interests_by_date H date s =
     await_handler (\<lambda>c. query_interests_by_date_tool H c [''date'' \<mapsto> PyStr date]) s"

subsection \<open>Observing what a tool forwards\<close>

text \<open>
  To see which handler a tool awaits and with which dict, the tools are run on probe
  handlers: each returns its own name together with the params dict it was given
  (\<open>None\<close> when it is called with the context alone) and leaves the context as it is.
\<close>

datatype tool_name =
    Get_tabs_tool | Screenshot_tool | Navigate_tool | Select_tab_tool | New_tab_tool
  | Close_tab_tool | Search_google_tool | Click_element_tool | Input_text_tool
  | Send_keys_tool | Grab_dom_tool | Capture_with_highlights_tool
  | Add_assistant_message_tool | Query_history_by_date_tool | Query_interests_by_date_tool

type_synonym observation = "tool_name \<times> params option"

definition probe :: "('c, observation) handlers" where
  "probe = \<lparr>
     get_tabs_tool = (\<lambda>c. ((Get_tabs_tool, None), c)),
     screenshot_tool = (\<lambda>c. ((Screenshot_tool, None), c)),
     navigate_tool = (\<lambda>c p. ((Navigate_tool, Some p), c)),
     select_tab_tool = (\<lambda>c p. ((Select_tab_tool, Some p), c)),
     new_tab_tool = (\<lambda>c p. ((New_tab_tool, Some p), c)),
     close_tab_tool = (\<lambda>c p. ((Close_tab_tool, Some p), c)),
     search_google_tool = (\<lambda>c p. ((Search_google_tool, Some p), c)),
     click_element_tool = (\<lambda>c p. ((Click_element_tool, Some p), c)),
     input_text_tool = (\<lambda>c p. ((Input_text_tool, Some p), c)),
     send_keys_tool = (\<lambda>c p. ((Send_keys_tool, Some p), c)),
     grab_dom_tool = (\<lambda>c p. ((Grab_dom_tool, Some p), c)),
     capture_with_highlights_tool = (\<lambda>c p. ((Capture_with_highlights_tool, Some p), c)),
     add_assistant_message_tool = (\<lambda>c p. ((Add_assistant_message_tool, Some p), c)),
     query_history_by_date_tool = (\<lambda>c p. ((Query_history_by_date_tool, Some p), c)),
     query_interests_by_date_tool = (\<lambda>c p. ((Query_interests_by_date_tool, Some p), c))\<rparr>"

definition called_handler :: "observation \<times> 's \<Rightarrow> tool_name" where
  "called_handler out = fst (fst out)"

definition forwarded_params :: "observation \<times> 's \<Rightarrow> params option" where
  "forwarded_params out = snd (fst out)"

text \<open>The keys of the forwarded dict; \<open>None\<close> when the handler was given no dict.\<close>

definition forwarded_keys :: "observation \<times> 's \<Rightarrow> string set option" where
  "forwarded_keys out = map_option dom (forwarded_params out)"

text \<open>
  The entry of the forwarded dict under a key: \<open>Some None\<close> when a dict was forwarded
  without the key, \<open>Some (Some v)\<close> when it holds \<open>v\<close> there.
\<close>

definition forwarded_entry :: "string \<Rightarrow> observation \<times> 's \<Rightarrow> pyval option option" where
  "forwarded_entry k out = map_option (\<lambda>p. p k) (forwarded_params out)"

definition has_key :: "string \<Rightarrow> observation \<times> 's \<Rightarrow> bool" where
  "has_key k out = (case forwarded_params out of None \<Rightarrow> False | Some p \<Rightarrow> p k \<noteq> None)"

text \<open>
  What it means for a tool run from state \<open>s\<close> to forward a handler call \<open>h\<close>: the
  tool returns the handler's result, the shared context afterwards is the one the
  handler left, and the listener handle is the one before.
\<close>

definition forwards ::
  "'r \<times> 'c module_state \<Rightarrow> 'c module_state \<Rightarrow> 'r \<times> 'c \<Rightarrow> bool" where
  "forwards out s h \<longleftrightarrow>
     fst out = fst h \<and> shared_context (snd out) = snd h \<and> ws_server (snd out) = ws_server s"

text \<open>The key an optional \<^verbatim>\<open>tab_id\<close> contributes: none unless the caller supplies one.\<close>

definition supplied_tab_key :: "int option \<Rightarrow> string set" where
  "supplied_tab_key tab_id = (case tab_id of None \<Rightarrow> {} | Some _ \<Rightarrow> {''tab_id''})"

subsection \<open>Shutdown\<close>

definition server_close :: "listener \<Rightarrow> listener" where
  "server_close l = (case l of Listening \<Rightarrow> Closing | _ \<Rightarrow> l)"

definition wait_closed :: "listener \<Rightarrow> listener" where
  "wait_closed l = (case l of Closing \<Rightarrow> Closed | _ \<Rightarrow> l)"

text \<open>
  \<^verbatim>\<open>cleanup\<close> logs, awaits \<^verbatim>\<open>context.close()\<close>, then closes the listener if the handle is
  set, and logs again. \<^verbatim>\<open>Context.close\<close> is defined outside the file and is the parameter
  \<open>close_ctx\<close>. A server object is truthy, so \<^verbatim>\<open>if ws_server:\<close> tests for \<^verbatim>\<open>None\<close>.
\<close>

definition close_connections :: "('c \<Rightarrow> 'c) \<Rightarrow> 'c module_state \<Rightarrow> 'c module_state" where
  "close_connections close_ctx s = s\<lparr>shared_context := close_ctx (shared_context s)\<rparr>"

definition close_server :: "'c module_state \<Rightarrow> 'c module_state" where
  "close_server s =
     (case ws_server s of
        None \<Rightarrow> s
      | Some srv \<Rightarrow> s\<lparr>ws_server := Some (server_close srv)\<rparr>)"

definition await_server_closed :: "'c module_state \<Rightarrow> 'c module_state" where
  "await_server_closed s =
     (case ws_server s of
        None \<Rightarrow> s
      | Some srv \<Rightarrow> s\<lparr>ws_server := Some (wait_closed srv)\<rparr>)"

definition cleanup :: "('c \<Rightarrow> 'c) \<Rightarrow> 'c module_state \<Rightarrow> 'c module_state" where
  "cleanup close_ctx s =
     (let s = log_info ''__main__'' ''Shutting down servers...'' s;
          s = close_connections close_ctx s;
          s = (if ws_server s \<noteq> None then await_server_closed (close_server s) else s)
      in log_info ''__main__'' ''Shutdown complete'' s)"

text \<open>
  The states \<^verbatim>\<open>cleanup\<close> passes through, one after each statement, starting with the
  state it is called in.
\<close>

definition cleanup_trace :: "('c \<Rightarrow> 'c) \<Rightarrow> 'c module_state \<Rightarrow> 'c module_state list" where
  "cleanup_trace close_ctx s0 =
     (let s1 = log_info ''__main__'' ''Shutting down servers...'' s0;
          s2 = close_connections close_ctx s1
      in if ws_server s2 \<noteq> None then
           (let s3 = close_server s2;
                s4 = await_server_closed s3;
                s5 = log_info ''__main__'' ''Shutdown complete'' s4
            in [s0, s1, s2, s3, s4, s5])
         else
           (let s5 = log_info ''__main__'' ''Shutdown complete'' s2
            in [s0, s1, s2, s5]))"

section \<open>The bridge behind the context object\<close>

text \<open>
  The context object, the WebSocket listener and the handlers are defined in modules
  that are not part of \<^verbatim>\<open>main.py\<close>. The specification describes what they implement: a
  connection registry, a correlation table and a call surface on top of both. Every
  definition of this section is modelled from the specification.
\<close>

subsection \<open>Data model\<close>

type_synonym conn_id = nat
type_synonym corr_id = nat
type_synonym time = nat

text \<open>Modelled from the spec: the error taxonomy of section 7.\<close>

datatype bridge_error =
    UnknownTab | NoActiveConnection | Timeout | Remote string string
  | ConnectionLost | ShuttingDown | ProtocolViolation

text \<open>
  Modelled from the spec: the single-resolution slot of a PendingRequest,
  \<^verbatim>\<open>{success(payload) | failure(reason)}\<close>; payloads are opaque text.
\<close>

datatype outcome = Success string | Failure bridge_error

text \<open>
  Modelled from the spec: the Command frame
  \<^verbatim>\<open>{ id, op, tabId?, args }\<close> of section 6.
\<close>

record command =
  command_id :: corr_id
  command_op :: string
  command_tab :: "int option"
  command_args :: params

text \<open>
  Modelled from the spec: a Connection (identifier, socket handle, set of known tab
  identifiers, liveness flag, last-activity timestamp). The socket handle is
  represented by the frames written to it.
\<close>

record connection =
  conn_ident :: conn_id
  socket :: "command list"
  known_tabs :: "int set"
  alive :: bool
  last_activity :: time

text \<open>
  Modelled from the spec: a PendingRequest (correlation id, target connection id, issue
  timestamp, deadline). Its resolution slot is filled when the entry leaves the table;
  the outcome is then recorded in the table's list of delivered outcomes.
\<close>

record pending_request =
  correlation :: corr_id
  target :: conn_id
  issued :: time
  deadline :: time

text \<open>
  Modelled from the spec: the Correlation Table. Besides the live entries it holds the
  next correlation id (ids are increasing integers), the outcomes delivered to
  awaiting callers in the order of delivery, and the ids of the responses that were
  dropped and logged.
\<close>

record correlation_table =
  entries :: "pending_request list"
  next_correlation :: corr_id
  delivered :: "(corr_id \<times> outcome) list"
  dropped :: "corr_id list"

text \<open>
  Modelled from the spec: the Connection Registry. The connections are kept with the
  one that reported its tabs last in front; the default connection is designated
  explicitly.
\<close>

record registry =
  connections :: "connection list"
  default_connection :: "conn_id option"
  next_connection :: conn_id

text \<open>Modelled from the spec: the state behind the Bridge Facade, registry and table.\<close>

record bridge =
  conn_registry :: registry
  corr_table :: correlation_table

subsection \<open>Correlation Table\<close>

text \<open>Modelled from the spec: a table with nothing outstanding and nothing delivered.\<close>

definition empty_table :: correlation_table where
  "empty_table = \<lparr>entries = [], next_correlation = 0, delivered = [], dropped = []\<rparr>"

text \<open>Modelled from the spec: whether a correlation id has a live entry in the table.\<close>

definition pending :: "corr_id \<Rightarrow> correlation_table \<Rightarrow> bool" where
  "pending cid t \<longleftrightarrow> cid \<in> set (map correlation (entries t))"

text \<open>
  Modelled from the spec: \<^verbatim>\<open>allocate(connectionId, timeout) -> (correlationId, awaitable)\<close>,
  at time \<open>now\<close>. The awaitable is the id: the caller waits for its outcome.
\<close>

definition allocate ::
  "conn_id \<Rightarrow> time \<Rightarrow> time \<Rightarrow> correlation_table \<Rightarrow> corr_id \<times> correlation_table" where
  "allocate conn timeout now t =
     (let cid = next_correlation t;
          entry = \<lparr>correlation = cid, target = conn, issued = now, deadline = now + timeout\<rparr>
      in (cid, t\<lparr>entries := entries t @ [entry], next_correlation := Suc cid\<rparr>))"

text \<open>
  Modelled from the spec: \<^verbatim>\<open>resolve(correlationId, outcome) -> bool\<close>. A live entry is
  resolved with the outcome and removed at once; for any other id the outcome is
  dropped and logged and the answer is false.
\<close>

definition resolve :: "corr_id \<Rightarrow> outcome \<Rightarrow> correlation_table \<Rightarrow> bool \<times> correlation_table" where
  "resolve cid out t =
     (if pending cid t then
        (True, t\<lparr>entries := filter (\<lambda>p. correlation p \<noteq> cid) (entries t),
                 delivered := delivered t @ [(cid, out)]\<rparr>)
      else (False, t\<lparr>dropped := dropped t @ [cid]\<rparr>))"

text \<open>Modelled from the spec: resolving a batch of entries with one outcome, in order.\<close>

fun resolve_each :: "corr_id list \<Rightarrow> outcome \<Rightarrow> correlation_table \<Rightarrow> correlation_table" where
  "resolve_each [] out t = t"
| "resolve_each (cid # cids) out t = resolve_each cids out (snd (resolve cid out t))"

text \<open>
  Modelled from the spec: \<^verbatim>\<open>cancelAll(connectionId, reason)\<close> resolves every pending entry
  for that connection with a failure outcome.
\<close>

definition cancelAll :: "conn_id \<Rightarrow> bridge_error \<Rightarrow> correlation_table \<Rightarrow> correlation_table" where
  "cancelAll conn reason t =
     resolve_each (map correlation (filter (\<lambda>p. target p = conn) (entries t))) (Failure reason) t"

text \<open>
  Modelled from the spec: the deadline sweep. On expiry an entry is resolved with a
  \<^verbatim>\<open>Timeout\<close> outcome and removed.
\<close>

definition expire :: "time \<Rightarrow> correlation_table \<Rightarrow> correlation_table" where
  "expire now t =
     resolve_each (map correlation (filter (\<lambda>p. deadline p \<le> now) (entries t))) (Failure Timeout) t"

text \<open>
  Modelled from the spec: what can happen to the table (an allocation, a response from
  the extension, a deadline sweep, a cancellation), and a run of such events.
\<close>

datatype table_event =
    Allocated conn_id time time
  | Responded corr_id outcome
  | Swept time
  | Cancelled conn_id bridge_error

text \<open>Modelled from the spec: the effect of one event on the table.\<close>

fun table_step :: "table_event \<Rightarrow> correlation_table \<Rightarrow> correlation_table" where
  "table_step (Allocated conn timeout now) t = snd (allocate conn timeout now t)"
| "table_step (Responded cid out) t = snd (resolve cid out t)"
| "table_step (Swept now) t = expire now t"
| "table_step (Cancelled conn reason) t = cancelAll conn reason t"

text \<open>Modelled from the spec: the table after a sequence of events, first event first.\<close>

definition table_run :: "table_event list \<Rightarrow> correlation_table \<Rightarrow> correlation_table" where
  "table_run events t = fold table_step events t"

text \<open>
  Modelled from the spec: the invariant of the table. There is at most one live
  PendingRequest per correlation id, no id is both live and resolved, no id has been
  resolved twice, and every id in use lies below the next one to be handed out.
\<close>

definition table_inv :: "correlation_table \<Rightarrow> bool" where
  "table_inv t \<longleftrightarrow>
     distinct (map correlation (entries t)) \<and>
     distinct (map fst (delivered t)) \<and>
     set (map correlation (entries t)) \<inter> set (map fst (delivered t)) = {} \<and>
     (\<forall>cid \<in> set (map correlation (entries t)). cid < next_correlation t) \<and>
     (\<forall>cid \<in> set (map fst (delivered t)). cid < next_correlation t)"

subsection \<open>Connection Registry\<close>

text \<open>
  Modelled from the spec: \<^verbatim>\<open>register(connection) -> connectionId\<close>. The extension
  announces its tab snapshot in the handshake; the first connection registered becomes
  the default one.
\<close>

definition register :: "int set \<Rightarrow> time \<Rightarrow> registry \<Rightarrow> conn_id \<times> registry" where
  "register tabs now r =
     (let conn = next_connection r;
          c = \<lparr>conn_ident = conn, socket = [], known_tabs = tabs, alive = True,
               last_activity = now\<rparr>
      in (conn, r\<lparr>connections := c # connections r,
                  default_connection :=
                    (case default_connection r of None \<Rightarrow> Some conn | Some d \<Rightarrow> Some d),
                  next_connection := Suc conn\<rparr>))"

text \<open>
  Modelled from the spec: a \<^verbatim>\<open>tabs-updated\<close> event replaces the cached tab snapshot of a
  connection, which thereby becomes the one that reported last.
\<close>

definition tabs_updated :: "conn_id \<Rightarrow> int set \<Rightarrow> time \<Rightarrow> registry \<Rightarrow> registry" where
  "tabs_updated conn tabs now r =
     (case find (\<lambda>c. conn_ident c = conn) (connections r) of
        None \<Rightarrow> r
      | Some c \<Rightarrow>
          r\<lparr>connections :=
              c\<lparr>known_tabs := tabs, last_activity := now\<rparr>
                # filter (\<lambda>c. conn_ident c \<noteq> conn) (connections r)\<rparr>)"

text \<open>
  Modelled from the spec: removing a connection from the registry. When the default
  connection goes, a remaining one takes its place.
\<close>

definition remove_connection :: "conn_id \<Rightarrow> registry \<Rightarrow> registry" where
  "remove_connection conn r =
     (let rest = filter (\<lambda>c. conn_ident c \<noteq> conn) (connections r)
      in r\<lparr>connections := rest,
           default_connection :=
             (if default_connection r = Some conn
              then (case rest of [] \<Rightarrow> None | c # _ \<Rightarrow> Some (conn_ident c))
              else default_connection r)\<rparr>)"

text \<open>
  Modelled from the spec: \<^verbatim>\<open>resolveTarget(tabId?) -> connectionId\<close>. With a tab id it
  returns the connection that last reported owning that tab and fails with
  \<^verbatim>\<open>UnknownTab\<close> if none does; without one it returns the default connection and fails
  with \<^verbatim>\<open>NoActiveConnection\<close> if none is registered.
\<close>

fun resolveTarget :: "int option \<Rightarrow> registry \<Rightarrow> bridge_error + conn_id" where
  "resolveTarget (Some tab) r =
     (case find (\<lambda>c. tab \<in> known_tabs c) (connections r) of
        None \<Rightarrow> Inl UnknownTab
      | Some c \<Rightarrow> Inr (conn_ident c))"
| "resolveTarget None r =
     (case default_connection r of
        None \<Rightarrow> Inl NoActiveConnection
      | Some conn \<Rightarrow> Inr conn)"

text \<open>
  Modelled from the spec: writing a Command frame to a connection's socket. The write
  fails (\<open>None\<close>) when the connection is gone or no longer alive.
\<close>

definition write_frame :: "conn_id \<Rightarrow> command \<Rightarrow> registry \<Rightarrow> registry option" where
  "write_frame conn frame r =
     (case find (\<lambda>c. conn_ident c = conn) (connections r) of
        None \<Rightarrow> None
      | Some c \<Rightarrow>
          if alive c then
            Some (r\<lparr>connections :=
                     map (\<lambda>c. if conn_ident c = conn then c\<lparr>socket := socket c @ [frame]\<rparr> else c)
                       (connections r)\<rparr>)
          else None)"

text \<open>Modelled from the spec: all frames written so far, over every connection.\<close>

definition frames_sent :: "bridge \<Rightarrow> command list" where
  "frames_sent b = concat (map socket (connections (conn_registry b)))"

subsection \<open>Bridge operations\<close>

text \<open>
  Modelled from the spec: \<^verbatim>\<open>unregister(connectionId)\<close>, also the close path of the
  listener. The connection leaves the registry and every PendingRequest addressed to it
  is cancelled with \<^verbatim>\<open>ConnectionLost\<close>.
\<close>

definition unregister :: "conn_id \<Rightarrow> bridge \<Rightarrow> bridge" where
  "unregister conn b =
     b\<lparr>conn_registry := remove_connection conn (conn_registry b),
       corr_table := cancelAll conn ConnectionLost (corr_table b)\<rparr>"

text \<open>
  Modelled from the spec: \<^verbatim>\<open>call(operation, tabId?, args, timeout)\<close> up to the point where
  the caller suspends. The target is resolved (an error is propagated and nothing else
  happens), a correlation entry is allocated, and the Command frame is written; a
  failed write is a connection loss. The caller then awaits the outcome of the
  returned correlation id.
\<close>

definition call ::
  "string \<Rightarrow> int option \<Rightarrow> params \<Rightarrow> time \<Rightarrow> time \<Rightarrow> bridge \<Rightarrow> (bridge_error + corr_id) \<times> bridge" where
  "call operation tab args timeout now b =
     (case resolveTarget tab (conn_registry b) of
        Inl e \<Rightarrow> (Inl e, b)
      | Inr conn \<Rightarrow>
          (case allocate conn timeout now (corr_table b) of
             (cid, t) \<Rightarrow>
               (let b = b\<lparr>corr_table := t\<rparr>;
                    frame = \<lparr>command_id = cid, command_op = operation, command_tab = tab,
                             command_args = args\<rparr>
                in case write_frame conn frame (conn_registry b) of
                     None \<Rightarrow> (Inr cid, unregister conn b)
                   | Some r \<Rightarrow> (Inr cid, b\<lparr>conn_registry := r\<rparr>))))"

text \<open>
  Modelled from the spec: what the awaiting caller of \<^verbatim>\<open>call\<close> receives once its entry
  is resolved, the payload or the failure; \<open>None\<close> while it is still waiting.
\<close>

definition awaited :: "corr_id \<Rightarrow> bridge \<Rightarrow> (bridge_error + string) option" where
  "awaited cid b =
     (case map_of (delivered (corr_table b)) cid of
        None \<Rightarrow> None
      | Some (Success payload) \<Rightarrow> Some (Inr payload)
      | Some (Failure e) \<Rightarrow> Some (Inl e))"

text \<open>
  Modelled from the spec: what \<^verbatim>\<open>context.close()\<close> has to do at shutdown. Every pending
  correlation entry is resolved with a \<^verbatim>\<open>ShuttingDown\<close> outcome and all connections
  are closed.
\<close>

definition context_close :: "bridge \<Rightarrow> bridge" where
  "context_close b =
     b\<lparr>corr_table :=
         resolve_each (map correlation (entries (corr_table b))) (Failure ShuttingDown)
           (corr_table b),
       conn_registry :=
         (conn_registry b)\<lparr>connections := [], default_connection := None\<rparr>\<rparr>"

section \<open>Verification\<close>

subsection \<open>Facts about awaiting a handler\<close>

lemma await_handler_forwards: "forwards (await_handler h s) s (h (shared_context s))"
  by (simp add: forwards_def await_handler_def split: prod.split)

lemma await_handler_after_log:
  "forwards (await_handler h (log_info n m s)) s (h (shared_context s))"
  by (simp add: forwards_def await_handler_def log_info_def split: prod.split)

lemma await_handler_probe: "await_handler (\<lambda>c. (x, c)) s = (x, s)"
  by (simp add: await_handler_def)

lemmas probe_simps =
  probe_def await_handler_probe called_handler_def forwarded_params_def forwarded_keys_def
  forwarded_entry_def has_key_def supplied_tab_key_def

subsection \<open>Each tool forwards to its handler\<close>

lemma get_tabs_forwards:
  "forwards (get_tabs H s) s (get_tabs_tool H (shared_context s))"
  unfolding get_tabs_def by (rule await_handler_forwards)

lemma screenshot_forwards:
  "forwards (screenshot H s) s (screenshot_tool H (shared_context s))"
  unfolding screenshot_def by (rule await_handler_forwards)

lemma navigate_forwards:
  "forwards (navigate H url s) s
    (navigate_tool H (shared_context s) [''url'' \<mapsto> PyStr url])"
  unfolding navigate_def Let_def
  using await_handler_forwards [of "\<lambda>c. navigate_tool H c p" s for p]
  by simp

lemma navigate_tab_forwards:
  "forwards (navigate_tab H url tab_id s) s
    (navigate_tool H (shared_context s)
       [''url'' \<mapsto> PyStr url, ''tab_id'' \<mapsto> PyInt tab_id])"
  unfolding navigate_tab_def Let_def
  using await_handler_forwards [of "\<lambda>c. navigate_tool H c p" s for p]
  by simp

lemma select_tab_forwards:
  "forwards (select_tab H tab_id s) s
    (select_tab_tool H (shared_context s) [''tab_id'' \<mapsto> PyInt tab_id])"
  unfolding select_tab_def Let_def
  using await_handler_forwards [of "\<lambda>c. select_tab_tool H c p" s for p]
  by simp

lemma new_tab_forwards:
  "forwards (new_tab H url s) s
    (new_tab_tool H (shared_context s)
       (case url of None \<Rightarrow> Map.empty
        | Some u \<Rightarrow> if u = [] then Map.empty else [''url'' \<mapsto> PyStr u]))"
  unfolding new_tab_def Let_def
  using await_handler_forwards [of "\<lambda>c. new_tab_tool H c p" s for p]
  by (cases url) simp_all

lemma close_tab_forwards:
  "forwards (close_tab H tab_id s) s
    (close_tab_tool H (shared_context s)
       (case tab_id of None \<Rightarrow> Map.empty
        | Some i \<Rightarrow> [''tab_id'' \<mapsto> PyInt i]))"
  unfolding close_tab_def Let_def
  using await_handler_forwards [of "\<lambda>c. close_tab_tool H c p" s for p]
  by (cases tab_id) simp_all

lemma search_google_forwards:
  "forwards (search_google H query tab_id s) s
    (search_google_tool H (shared_context s)
       (case tab_id of None \<Rightarrow> [''query'' \<mapsto> PyStr query]
        | Some i \<Rightarrow> [''query'' \<mapsto> PyStr query, ''tab_id'' \<mapsto> PyInt i]))"
  unfolding search_google_def Let_def
  using await_handler_forwards [of "\<lambda>c. search_google_tool H c p" s for p]
  by (cases tab_id) simp_all

lemma click_element_forwards:
  "forwards (click_element H element_id tab_id s) s
    (click_element_tool H (shared_context s)
       (case tab_id of None \<Rightarrow> [''element_id'' \<mapsto> PyStr element_id]
        | Some i \<Rightarrow> [''element_id'' \<mapsto> PyStr element_id, ''tab_id'' \<mapsto> PyInt i]))"
  unfolding click_element_def Let_def
  using await_handler_forwards [of "\<lambda>c. click_element_tool H c p" s for p]
  by (cases tab_id) simp_all

lemma input_text_forwards:
  "forwards (input_text H element_id text tab_id s) s
    (input_text_tool H (shared_context s)
       (case tab_id of None \<Rightarrow> [''element_id'' \<mapsto> PyStr element_id, ''text'' \<mapsto> PyStr text]
        | Some i \<Rightarrow> [''element_id'' \<mapsto> PyStr element_id, ''text'' \<mapsto> PyStr text, ''tab_id'' \<mapsto> PyInt i]))"
  unfolding input_text_def Let_def
  using await_handler_forwards [of "\<lambda>c. input_text_tool H c p" s for p]
  by (cases tab_id) simp_all

lemma send_keys_forwards:
  "forwards (send_keys H keys tab_id s) s
    (send_keys_tool H (shared_context s)
       (case tab_id of None \<Rightarrow> [''keys'' \<mapsto> PyStr keys]
        | Some i \<Rightarrow> [''keys'' \<mapsto> PyStr keys, ''tab_id'' \<mapsto> PyInt i]))"
  unfolding send_keys_def Let_def
  using await_handler_forwards [of "\<lambda>c. send_keys_tool H c p" s for p]
  by (cases tab_id) simp_all

lemma grab_dom_forwards:
  "forwards (grab_dom H tab_id s) s
    (grab_dom_tool H (shared_context s)
       (case tab_id of None \<Rightarrow> Map.empty
        | Some i \<Rightarrow> [''tab_id'' \<mapsto> PyInt i]))"
  unfolding grab_dom_def Let_def
  using await_handler_forwards [of "\<lambda>c. grab_dom_tool H c p" s for p]
  by (cases tab_id) simp_all

lemma capture_with_highlights_forwards:
  "forwards (capture_with_highlights H tab_id s) s
    (capture_with_highlights_tool H (shared_context s)
       (case tab_id of None \<Rightarrow> Map.empty
        | Some i \<Rightarrow> [''tab_id'' \<mapsto> PyInt i]))"
  unfolding capture_with_highlights_def Let_def
  using await_handler_forwards [of "\<lambda>c. capture_with_highlights_tool H c p" s for p]
  by (cases tab_id) simp_all

lemma add_assistant_message_forwards:
  "forwards (add_assistant_message H message s) s
    (add_assistant_message_tool H (shared_context s) [''message'' \<mapsto> PyStr message])"
  unfolding add_assistant_message_def Let_def
  using await_handler_forwards [of "\<lambda>c. add_assistant_message_tool H c p" s for p]
  by simp

lemma query_history_by_date_forwards:
  "forwards (query_history_by_date H date s) s
    (query_history_by_date_tool H (shared_context s) [''date'' \<mapsto> PyStr date])"
  unfolding query_history_by_date_def Let_def
  using await_handler_after_log [of "\<lambda>c. query_history_by_date_tool H c p" _ _ s for p] by simp

lemma query_interests_by_date_forwards:
  "forwards (query_interests_by_date H date s) s
    (query_interests_by_date_tool H (shared_context s) [''date'' \<mapsto> PyStr date])"
  unfolding query_interests_by_date_def Let_def
  using await_handler_forwards [of "\<lambda>c. query_interests_by_date_tool H c p" s for p]
  by simp

text \<open>
  Claim C1. Every registered tool returns exactly what its one handler returns when
  applied to the shared context and the dict built from the tool's arguments: the result
  is forwarded unmodified, the context left behind is the handler's, and the listener
  handle is untouched. \<^verbatim>\<open>get_tabs\<close> and \<^verbatim>\<open>screenshot\<close> have no arguments and call their
  handler with the context alone. The handlers \<open>H\<close>, the result type and the state are
  arbitrary.
\<close>

theorem tools_forward_handler_result:
  "forwards (get_tabs H s) s (get_tabs_tool H (shared_context s))
   \<and> forwards (screenshot H s) s (screenshot_tool H (shared_context s))
   \<and> forwards (navigate H url s) s
       (navigate_tool H (shared_context s) [''url'' \<mapsto> PyStr url])
   \<and> forwards (navigate_tab H url tab_id s) s
       (navigate_tool H (shared_context s)
          [''url'' \<mapsto> PyStr url, ''tab_id'' \<mapsto> PyInt tab_id])
   \<and> forwards (select_tab H tab_id s) s
       (select_tab_tool H (shared_context s) [''tab_id'' \<mapsto> PyInt tab_id])
   \<and> forwards (new_tab H opt_url s) s
       (new_tab_tool H (shared_context s)
          (case opt_url of None \<Rightarrow> Map.empty
           | Some u \<Rightarrow> if u = [] then Map.empty else [''url'' \<mapsto> PyStr u]))
   \<and> forwards (close_tab H opt_tab_id s) s
       (close_tab_tool H (shared_context s)
          (case opt_tab_id of None \<Rightarrow> Map.empty
           | Some i \<Rightarrow> [''tab_id'' \<mapsto> PyInt i]))
   \<and> forwards (search_google H query opt_tab_id s) s
       (search_google_tool H (shared_context s)
          (case opt_tab_id of None \<Rightarrow> [''query'' \<mapsto> PyStr query]
           | Some i \<Rightarrow> [''query'' \<mapsto> PyStr query, ''tab_id'' \<mapsto> PyInt i]))
   \<and> forwards (click_element H element_id opt_tab_id s) s
       (click_element_tool H (shared_context s)
          (case opt_tab_id of None \<Rightarrow> [''element_id'' \<mapsto> PyStr element_id]
           | Some i \<Rightarrow> [''element_id'' \<mapsto> PyStr element_id,
                       ''tab_id'' \<mapsto> PyInt i]))
   \<and> forwards (input_text H element_id text opt_tab_id s) s
       (input_text_tool H (shared_context s)
          (case opt_tab_id of
             None \<Rightarrow> [''element_id'' \<mapsto> PyStr element_id, ''text'' \<mapsto> PyStr text]
           | Some i \<Rightarrow> [''element_id'' \<mapsto> PyStr element_id, ''text'' \<mapsto> PyStr text,
                       ''tab_id'' \<mapsto> PyInt i]))
   \<and> forwards (send_keys H keys opt_tab_id s) s
       (send_keys_tool H (shared_context s)
          (case opt_tab_id of None \<Rightarrow> [''keys'' \<mapsto> PyStr keys]
           | Some i \<Rightarrow> [''keys'' \<mapsto> PyStr keys, ''tab_id'' \<mapsto> PyInt i]))
   \<and> forwards (grab_dom H opt_tab_id s) s
       (grab_dom_tool H (shared_context s)
          (case opt_tab_id of None \<Rightarrow> Map.empty
           | Some i \<Rightarrow> [''tab_id'' \<mapsto> PyInt i]))
   \<and> forwards (capture_with_highlights H opt_tab_id s) s
       (capture_with_highlights_tool H (shared_context s)
          (case opt_tab_id of None \<Rightarrow> Map.empty
           | Some i \<Rightarrow> [''tab_id'' \<mapsto> PyInt i]))
   \<and> forwards (add_assistant_message H message s) s
       (add_assistant_message_tool H (shared_context s) [''message'' \<mapsto> PyStr message])
   \<and> forwards (query_history_by_date H date s) s
       (query_history_by_date_tool H (shared_context s) [''date'' \<mapsto> PyStr date])
   \<and> forwards (query_interests_by_date H date s) s
       (query_interests_by_date_tool H (shared_context s) [''date'' \<mapsto> PyStr date])"
  by (intro conjI)
     (rule get_tabs_forwards screenshot_forwards navigate_forwards navigate_tab_forwards
        select_tab_forwards new_tab_forwards close_tab_forwards search_google_forwards
        click_element_forwards input_text_forwards send_keys_forwards grab_dom_forwards
        capture_with_highlights_forwards add_assistant_message_forwards
        query_history_by_date_forwards query_interests_by_date_forwards)+

subsection \<open>The tools run on the probe handlers\<close>

lemma probe_get_tabs: "get_tabs probe s = ((Get_tabs_tool, None), s)"
  by (simp add: get_tabs_def probe_simps)

lemma probe_screenshot: "screenshot probe s = ((Screenshot_tool, None), s)"
  by (simp add: screenshot_def probe_simps)

lemma probe_navigate:
  "navigate probe url s = ((Navigate_tool, Some [''url'' \<mapsto> PyStr url]), s)"
  by (simp add: navigate_def probe_simps)

lemma probe_navigate_tab:
  "navigate_tab probe url tab_id s =
     ((Navigate_tool, Some [''url'' \<mapsto> PyStr url, ''tab_id'' \<mapsto> PyInt tab_id]), s)"
  by (simp add: navigate_tab_def probe_simps)

lemma probe_select_tab:
  "select_tab probe tab_id s = ((Select_tab_tool, Some [''tab_id'' \<mapsto> PyInt tab_id]), s)"
  by (simp add: select_tab_def probe_simps)

lemma probe_new_tab:
  "new_tab probe url s =
     ((New_tab_tool,
       Some (if truthy url then [''url'' \<mapsto> PyStr (the url)] else Map.empty)), s)"
  by (simp add: new_tab_def probe_simps)

lemma probe_close_tab:
  "close_tab probe tab_id s = ((Close_tab_tool, Some (set_tab_id tab_id Map.empty)), s)"
  by (simp add: close_tab_def probe_simps)

lemma probe_search_google:
  "search_google probe query tab_id s =
     ((Search_google_tool, Some (set_tab_id tab_id [''query'' \<mapsto> PyStr query])), s)"
  by (simp add: search_google_def probe_simps)

lemma probe_click_element:
  "click_element probe element_id tab_id s =
     ((Click_element_tool,
       Some (set_tab_id tab_id [''element_id'' \<mapsto> PyStr element_id])), s)"
  by (simp add: click_element_def probe_simps)

lemma probe_input_text:
  "input_text probe element_id text tab_id s =
     ((Input_text_tool,
       Some (set_tab_id tab_id
               [''element_id'' \<mapsto> PyStr element_id, ''text'' \<mapsto> PyStr text])), s)"
  by (simp add: input_text_def probe_simps)

lemma probe_send_keys:
  "send_keys probe keys tab_id s =
     ((Send_keys_tool, Some (set_tab_id tab_id [''keys'' \<mapsto> PyStr keys])), s)"
  by (simp add: send_keys_def probe_simps)

lemma probe_grab_dom:
  "grab_dom probe tab_id s = ((Grab_dom_tool, Some (set_tab_id tab_id Map.empty)), s)"
  by (simp add: grab_dom_def probe_simps)

lemma probe_capture_with_highlights:
  "capture_with_highlights probe tab_id s =
     ((Capture_with_highlights_tool, Some (set_tab_id tab_id Map.empty)), s)"
  by (simp add: capture_with_highlights_def probe_simps)

lemma probe_query_history_by_date:
  "query_history_by_date probe date s =
     ((Query_history_by_date_tool, Some [''date'' \<mapsto> PyStr date]),
      log_info ''root'' (''query_history_by_date tool called with date='' @ date) s)"
  by (simp add: query_history_by_date_def probe_simps)

lemma probe_query_interests_by_date:
  "query_interests_by_date probe date s =
     ((Query_interests_by_date_tool, Some [''date'' \<mapsto> PyStr date]), s)"
  by (simp add: query_interests_by_date_def probe_simps)

lemmas probe_runs =
  probe_get_tabs probe_screenshot probe_navigate probe_navigate_tab probe_select_tab
  probe_new_tab probe_close_tab probe_search_google probe_click_element probe_input_text
  probe_send_keys probe_grab_dom probe_capture_with_highlights
  probe_query_history_by_date probe_query_interests_by_date

lemmas observe =
  forwarded_params_def forwarded_keys_def forwarded_entry_def has_key_def called_handler_def

lemma dom_set_tab_id: "dom (set_tab_id tab_id p) = dom p \<union> supplied_tab_key tab_id"
  by (cases tab_id) (auto simp: supplied_tab_key_def)

lemma set_tab_id_other: "k \<noteq> ''tab_id'' \<Longrightarrow> set_tab_id tab_id p k = p k"
  by (cases tab_id) auto

text \<open>
  Claim C2. For every operation of the catalogue, the dict forwarded to the handler has
  exactly the catalogued arguments as keys, each holding the caller's value, plus the
  key \<^verbatim>\<open>tab_id\<close> exactly when the caller supplies one. \<^verbatim>\<open>get_tabs\<close> and \<^verbatim>\<open>screenshot\<close>
  forward no dict at all. \<^verbatim>\<open>new_tab\<close> and \<^verbatim>\<open>close_tab\<close>, which the catalogue lists with an
  optional argument only, forward that argument when it is given (a truthy \<^verbatim>\<open>url\<close>, a
  \<^verbatim>\<open>tab_id\<close> other than \<^verbatim>\<open>None\<close>) and an empty dict otherwise.
\<close>

theorem forwarded_params_match_catalogue:
  "forwarded_params (get_tabs probe s) = None
   \<and> forwarded_params (screenshot probe s) = None
   \<and> forwarded_keys (navigate probe url s) = Some {''url''}
   \<and> forwarded_entry ''url'' (navigate probe url s) = Some (Some (PyStr url))
   \<and> forwarded_keys (select_tab probe tab_id s) = Some {''tab_id''}
   \<and> forwarded_entry ''tab_id'' (select_tab probe tab_id s) = Some (Some (PyInt tab_id))
   \<and> forwarded_keys (new_tab probe opt_url s) = Some (if truthy opt_url then {''url''} else {})
   \<and> forwarded_keys (close_tab probe opt_tab_id s) = Some (supplied_tab_key opt_tab_id)
   \<and> forwarded_keys (search_google probe query opt_tab_id s)
       = Some ({''query''} \<union> supplied_tab_key opt_tab_id)
   \<and> forwarded_entry ''query'' (search_google probe query opt_tab_id s)
       = Some (Some (PyStr query))
   \<and> forwarded_keys (click_element probe element_id opt_tab_id s)
       = Some ({''element_id''} \<union> supplied_tab_key opt_tab_id)
   \<and> forwarded_entry ''element_id'' (click_element probe element_id opt_tab_id s)
       = Some (Some (PyStr element_id))
   \<and> forwarded_keys (input_text probe element_id text opt_tab_id s)
       = Some ({''element_id'', ''text''} \<union> supplied_tab_key opt_tab_id)
   \<and> forwarded_entry ''element_id'' (input_text probe element_id text opt_tab_id s)
       = Some (Some (PyStr element_id))
   \<and> forwarded_entry ''text'' (input_text probe element_id text opt_tab_id s)
       = Some (Some (PyStr text))
   \<and> forwarded_keys (send_keys probe keys opt_tab_id s)
       = Some ({''keys''} \<union> supplied_tab_key opt_tab_id)
   \<and> forwarded_entry ''keys'' (send_keys probe keys opt_tab_id s) = Some (Some (PyStr keys))
   \<and> forwarded_keys (grab_dom probe opt_tab_id s) = Some (supplied_tab_key opt_tab_id)
   \<and> forwarded_keys (capture_with_highlights probe opt_tab_id s)
       = Some (supplied_tab_key opt_tab_id)"
  by (simp add: probe_runs observe dom_set_tab_id set_tab_id_other insert_commute)

text \<open>
  Claim C7. For every date string, both date tools await their own handler with
  exactly the dict \<^verbatim>\<open>{"date": date}\<close>, whatever the handlers are, and return its result as
  it is. The context they pass is the shared one, the context left behind is the one
  the handler left, and the listener handle is untouched; run on handlers that leave the
  context alone, the tools leave it alone too. \<^verbatim>\<open>query_history_by_date\<close> writes one log
  record before the call.
\<close>

theorem date_tools_forward_date:
  "called_handler (query_history_by_date probe date s) = Query_history_by_date_tool
   \<and> forwarded_params (query_history_by_date probe date s) = Some [''date'' \<mapsto> PyStr date]
   \<and> called_handler (query_interests_by_date probe date s) = Query_interests_by_date_tool
   \<and> forwarded_params (query_interests_by_date probe date s) = Some [''date'' \<mapsto> PyStr date]
   \<and> forwards (query_history_by_date H date t) t
       (query_history_by_date_tool H (shared_context t) [''date'' \<mapsto> PyStr date])
   \<and> forwards (query_interests_by_date H date t) t
       (query_interests_by_date_tool H (shared_context t) [''date'' \<mapsto> PyStr date])
   \<and> shared_context (snd (query_history_by_date probe date s)) = shared_context s
   \<and> ws_server (snd (query_history_by_date probe date s)) = ws_server s
   \<and> log_records (snd (query_history_by_date probe date s))
       = log_records s @ [(''root'', ''query_history_by_date tool called with date='' @ date)]
   \<and> snd (query_interests_by_date probe date s) = s"
  by (simp add: probe_runs observe log_info_def
      query_history_by_date_forwards query_interests_by_date_forwards)

text \<open>
  Claim C8. \<^verbatim>\<open>new_tab\<close> treats a falsy \<^verbatim>\<open>url\<close> as absent: called with \<^verbatim>\<open>None\<close> or with the
  empty string it forwards the empty dict, which has no \<^verbatim>\<open>url\<close> key; called with a
  non-empty string it forwards exactly \<^verbatim>\<open>{"url": url}\<close>.
\<close>

theorem new_tab_falsy_url_absent:
  "forwarded_params (new_tab probe None s) = Some Map.empty
   \<and> \<not> has_key ''url'' (new_tab probe None s)
   \<and> forwarded_params (new_tab probe (Some []) s) = Some Map.empty
   \<and> \<not> has_key ''url'' (new_tab probe (Some []) s)
   \<and> (url \<noteq> [] \<longrightarrow>
        forwarded_params (new_tab probe (Some url) s) = Some [''url'' \<mapsto> PyStr url])"
  by (simp add: probe_runs observe)

theorem new_tab_falsy_url_absent_witness:
  "''https://example.com'' \<noteq> []
   \<and> forwarded_params
        (new_tab probe (Some ''https://example.com'')
           \<lparr>shared_context = (), ws_server = None, log_records = []\<rparr>)
       = Some [''url'' \<mapsto> PyStr ''https://example.com'']"
  using new_tab_falsy_url_absent
    [of "\<lparr>shared_context = (), ws_server = None, log_records = []\<rparr>" "''https://example.com''"]
  by simp

text \<open>
  Claim C9. Each of the seven tools with an optional \<^verbatim>\<open>tab_id\<close> forwards a dict that has
  the key \<^verbatim>\<open>tab_id\<close> if and only if the caller's \<^verbatim>\<open>tab_id\<close> is not \<^verbatim>\<open>None\<close>, and the entry is
  then the caller's value. The test is on \<^verbatim>\<open>None\<close>, not on truthiness: \<^verbatim>\<open>tab_id = 0\<close> is
  forwarded, whereas \<^verbatim>\<open>new_tab\<close> drops the empty \<^verbatim>\<open>url\<close>.
\<close>

theorem optional_tab_id_forwarded_iff_given:
  "has_key ''tab_id'' (close_tab probe opt_tab_id s) = (opt_tab_id \<noteq> None)
   \<and> has_key ''tab_id'' (search_google probe query opt_tab_id s) = (opt_tab_id \<noteq> None)
   \<and> has_key ''tab_id'' (click_element probe element_id opt_tab_id s) = (opt_tab_id \<noteq> None)
   \<and> has_key ''tab_id'' (input_text probe element_id text opt_tab_id s) = (opt_tab_id \<noteq> None)
   \<and> has_key ''tab_id'' (send_keys probe keys opt_tab_id s) = (opt_tab_id \<noteq> None)
   \<and> has_key ''tab_id'' (grab_dom probe opt_tab_id s) = (opt_tab_id \<noteq> None)
   \<and> has_key ''tab_id'' (capture_with_highlights probe opt_tab_id s) = (opt_tab_id \<noteq> None)
   \<and> forwarded_entry ''tab_id'' (close_tab probe opt_tab_id s)
       = Some (map_option PyInt opt_tab_id)
   \<and> forwarded_entry ''tab_id'' (search_google probe query opt_tab_id s)
       = Some (map_option PyInt opt_tab_id)
   \<and> forwarded_entry ''tab_id'' (click_element probe element_id opt_tab_id s)
       = Some (map_option PyInt opt_tab_id)
   \<and> forwarded_entry ''tab_id'' (input_text probe element_id text opt_tab_id s)
       = Some (map_option PyInt opt_tab_id)
   \<and> forwarded_entry ''tab_id'' (send_keys probe keys opt_tab_id s)
       = Some (map_option PyInt opt_tab_id)
   \<and> forwarded_entry ''tab_id'' (grab_dom probe opt_tab_id s)
       = Some (map_option PyInt opt_tab_id)
   \<and> forwarded_entry ''tab_id'' (capture_with_highlights probe opt_tab_id s)
       = Some (map_option PyInt opt_tab_id)
   \<and> forwarded_entry ''tab_id'' (close_tab probe (Some 0) s) = Some (Some (PyInt 0))
   \<and> forwarded_entry ''tab_id'' (search_google probe query (Some 0) s) = Some (Some (PyInt 0))
   \<and> forwarded_entry ''tab_id'' (click_element probe element_id (Some 0) s)
       = Some (Some (PyInt 0))
   \<and> forwarded_entry ''tab_id'' (input_text probe element_id text (Some 0) s)
       = Some (Some (PyInt 0))
   \<and> forwarded_entry ''tab_id'' (send_keys probe keys (Some 0) s) = Some (Some (PyInt 0))
   \<and> forwarded_entry ''tab_id'' (grab_dom probe (Some 0) s) = Some (Some (PyInt 0))
   \<and> forwarded_entry ''tab_id'' (capture_with_highlights probe (Some 0) s)
       = Some (Some (PyInt 0))
   \<and> \<not> has_key ''url'' (new_tab probe (Some []) s)"
  by (cases opt_tab_id) (simp_all add: probe_runs observe)

text \<open>
  Claim C10. \<^verbatim>\<open>navigate\<close> and \<^verbatim>\<open>navigate_tab\<close> await the same handler, \<^verbatim>\<open>navigate_tool\<close>, and
  differ only in the dict: \<^verbatim>\<open>navigate\<close> forwards \<^verbatim>\<open>{"url": url}\<close>, \<^verbatim>\<open>navigate_tab\<close> forwards
  \<^verbatim>\<open>{"url": url, "tab_id": tab_id}\<close>, which is the dict of \<^verbatim>\<open>navigate\<close> with the key
  \<^verbatim>\<open>tab_id\<close> added, for every \<^verbatim>\<open>url\<close> and \<^verbatim>\<open>tab_id\<close> and whatever the handler does.
\<close>

theorem navigate_tab_extends_navigate:
  "called_handler (navigate probe url s) = Navigate_tool
   \<and> called_handler (navigate_tab probe url tab_id s) = Navigate_tool
   \<and> forwarded_params (navigate probe url s) = Some [''url'' \<mapsto> PyStr url]
   \<and> forwarded_params (navigate_tab probe url tab_id s)
       = Some [''url'' \<mapsto> PyStr url, ''tab_id'' \<mapsto> PyInt tab_id]
   \<and> forwarded_params (navigate_tab probe url tab_id s)
       = map_option (\<lambda>p. p(''tab_id'' \<mapsto> PyInt tab_id)) (forwarded_params (navigate probe url s))
   \<and> has_key ''tab_id'' (navigate_tab probe url tab_id s)
   \<and> \<not> has_key ''tab_id'' (navigate probe url s)
   \<and> forwards (navigate H url t) t
       (navigate_tool H (shared_context t) [''url'' \<mapsto> PyStr url])
   \<and> forwards (navigate_tab H url tab_id t) t
       (navigate_tool H (shared_context t) ([''url'' \<mapsto> PyStr url](''tab_id'' \<mapsto> PyInt tab_id)))"
  by (simp add: probe_runs observe navigate_forwards navigate_tab_forwards)

subsection \<open>The correlation table\<close>

lemma resolve_fst: "fst (resolve cid out t) = pending cid t"
  by (simp add: resolve_def)

lemma filter_not_pending:
  "\<not> pending cid t \<Longrightarrow> filter (\<lambda>p. correlation p \<noteq> cid) (entries t) = entries t"
  by (auto simp: pending_def filter_id_conv)

lemma resolve_entries:
  "entries (snd (resolve cid out t)) = filter (\<lambda>p. correlation p \<noteq> cid) (entries t)"
  by (simp add: resolve_def filter_not_pending)

lemma resolve_delivered:
  "delivered (snd (resolve cid out t)) =
     (if pending cid t then delivered t @ [(cid, out)] else delivered t)"
  by (simp add: resolve_def)

lemma resolve_next: "next_correlation (snd (resolve cid out t)) = next_correlation t"
  by (simp add: resolve_def)

lemma resolve_not_pending: "\<not> pending cid (snd (resolve cid out t))"
  by (auto simp: pending_def resolve_entries)

lemma resolve_pending_other:
  "pending cid' (snd (resolve cid out t)) \<longleftrightarrow> pending cid' t \<and> cid' \<noteq> cid"
  by (auto simp: pending_def resolve_entries)

lemma resolve_each_entries:
  "entries (resolve_each cids out t) = filter (\<lambda>p. correlation p \<notin> set cids) (entries t)"
  by (induction cids arbitrary: t) (auto simp: resolve_entries intro: filter_cong)

lemma resolve_each_delivered_set:
  "set (delivered (resolve_each cids out t)) =
     set (delivered t) \<union> {(cid, out) | cid. cid \<in> set cids \<and> pending cid t}"
  by (induction cids arbitrary: t) (auto simp: resolve_delivered resolve_pending_other)

lemma resolve_each_not_pending:
  "cid \<in> set cids \<Longrightarrow> \<not> pending cid (resolve_each cids out t)"
  by (auto simp: pending_def resolve_each_entries)

text \<open>The invariant holds of the empty table and is kept by every operation.\<close>

lemma empty_table_inv: "table_inv empty_table"
  by (simp add: table_inv_def empty_table_def)

lemma allocate_inv: "table_inv t \<Longrightarrow> table_inv (snd (allocate conn timeout now t))"
  unfolding table_inv_def allocate_def Let_def
  by (auto simp: less_Suc_eq)

lemma resolve_inv: "table_inv t \<Longrightarrow> table_inv (snd (resolve cid out t))"
  unfolding table_inv_def
  by (auto simp: resolve_entries resolve_delivered resolve_next pending_def distinct_map_filter)

lemma resolve_each_inv: "table_inv t \<Longrightarrow> table_inv (resolve_each cids out t)"
  by (induction cids arbitrary: t) (auto simp: resolve_inv)

lemma table_step_inv: "table_inv t \<Longrightarrow> table_inv (table_step e t)"
  by (cases e) (auto simp: allocate_inv resolve_inv resolve_each_inv expire_def cancelAll_def)

lemma fold_table_step_inv: "table_inv t \<Longrightarrow> table_inv (fold table_step es t)"
  by (induction es arbitrary: t) (auto simp: table_step_inv)

lemma table_run_inv: "table_inv (table_run es empty_table)"
  by (simp add: table_run_def fold_table_step_inv empty_table_inv)

text \<open>Cancellation and expiry resolve the entries they are about and remove them.\<close>

lemma cancelAll_no_target: "p \<in> set (entries (cancelAll conn reason t)) \<Longrightarrow> target p \<noteq> conn"
  by (auto simp: cancelAll_def resolve_each_entries)

lemma cancelAll_delivers:
  "p \<in> set (entries t) \<Longrightarrow> target p = conn \<Longrightarrow>
     (correlation p, Failure reason) \<in> set (delivered (cancelAll conn reason t))"
  by (auto simp: cancelAll_def resolve_each_delivered_set pending_def)

lemma cancelAll_not_pending:
  "p \<in> set (entries t) \<Longrightarrow> target p = conn \<Longrightarrow>
     \<not> pending (correlation p) (cancelAll conn reason t)"
  unfolding cancelAll_def by (rule resolve_each_not_pending) auto

lemma expire_delivers:
  "p \<in> set (entries t) \<Longrightarrow> deadline p \<le> now \<Longrightarrow>
     (correlation p, Failure Timeout) \<in> set (delivered (expire now t))"
  by (auto simp: expire_def resolve_each_delivered_set pending_def)

lemma expire_not_pending:
  "p \<in> set (entries t) \<Longrightarrow> deadline p \<le> now \<Longrightarrow>
     \<not> pending (correlation p) (expire now t)"
  unfolding expire_def by (rule resolve_each_not_pending) auto

text \<open>
  Claim C3. \<^verbatim>\<open>resolve\<close> answers true exactly for an id with a live entry, so false for an
  unknown or already resolved one, and then neither the entries nor the delivered
  outcomes change. Once an entry is resolved, by a response, by the deadline sweep or by
  a cancellation, it is gone from the table: a later response for its id gets the
  answer false and delivers nothing. In every table reached from the empty one by
  allocations, responses, sweeps and cancellations, an id that has been resolved is not
  live, and no id has been resolved twice.
\<close>

theorem resolve_at_most_once:
  "fst (resolve cid out t) = pending cid t
   \<and> (\<not> pending cid t \<longrightarrow>
        fst (resolve cid out t) = False
        \<and> entries (snd (resolve cid out t)) = entries t
        \<and> delivered (snd (resolve cid out t)) = delivered t)
   \<and> \<not> pending cid (snd (resolve cid out t))
   \<and> fst (resolve cid late (snd (resolve cid out t))) = False
   \<and> delivered (snd (resolve cid late (snd (resolve cid out t))))
       = delivered (snd (resolve cid out t))
   \<and> (p \<in> set (entries t) \<and> deadline p \<le> now \<longrightarrow>
        (correlation p, Failure Timeout) \<in> set (delivered (expire now t))
        \<and> \<not> pending (correlation p) (expire now t)
        \<and> fst (resolve (correlation p) late (expire now t)) = False)
   \<and> (p \<in> set (entries t) \<and> target p = conn \<longrightarrow>
        (correlation p, Failure reason) \<in> set (delivered (cancelAll conn reason t))
        \<and> \<not> pending (correlation p) (cancelAll conn reason t)
        \<and> fst (resolve (correlation p) late (cancelAll conn reason t)) = False)
   \<and> (cid \<in> set (map fst (delivered (table_run events empty_table))) \<longrightarrow>
        \<not> pending cid (table_run events empty_table)
        \<and> fst (resolve cid out (table_run events empty_table)) = False)
   \<and> distinct (map correlation (entries (table_run events empty_table)))
   \<and> distinct (map fst (delivered (table_run events empty_table)))"
proof -
  let ?T = "table_run events empty_table"
  have inv: "table_inv ?T"
    by (rule table_run_inv)
  have answer: "fst (resolve cid out t) = pending cid t"
    by (rule resolve_fst)
  have unknown: "\<not> pending cid t \<longrightarrow>
        fst (resolve cid out t) = False
        \<and> entries (snd (resolve cid out t)) = entries t
        \<and> delivered (snd (resolve cid out t)) = delivered t"
    by (simp add: resolve_fst resolve_entries resolve_delivered filter_not_pending)
  have gone: "\<not> pending cid (snd (resolve cid out t))"
    by (rule resolve_not_pending)
  have twice: "fst (resolve cid late (snd (resolve cid out t))) = False"
    by (simp add: resolve_fst resolve_not_pending)
  have silent: "delivered (snd (resolve cid late (snd (resolve cid out t))))
      = delivered (snd (resolve cid out t))"
    by (simp add: resolve_delivered [of cid late] resolve_not_pending)
  have timeout: "p \<in> set (entries t) \<and> deadline p \<le> now \<longrightarrow>
        (correlation p, Failure Timeout) \<in> set (delivered (expire now t))
        \<and> \<not> pending (correlation p) (expire now t)
        \<and> fst (resolve (correlation p) late (expire now t)) = False"
    by (simp add: resolve_fst expire_delivers expire_not_pending)
  have cancelled: "p \<in> set (entries t) \<and> target p = conn \<longrightarrow>
        (correlation p, Failure reason) \<in> set (delivered (cancelAll conn reason t))
        \<and> \<not> pending (correlation p) (cancelAll conn reason t)
        \<and> fst (resolve (correlation p) late (cancelAll conn reason t)) = False"
    by (simp add: resolve_fst cancelAll_delivers cancelAll_not_pending)
  have resolved: "cid \<in> set (map fst (delivered ?T)) \<longrightarrow>
        \<not> pending cid ?T \<and> fst (resolve cid out ?T) = False"
    using inv unfolding table_inv_def pending_def resolve_fst by blast
  have once: "distinct (map correlation (entries ?T))" "distinct (map fst (delivered ?T))"
    using inv by (simp_all add: table_inv_def)
  show ?thesis
    by (intro conjI)
       (rule answer unknown gone twice silent timeout cancelled resolved once)+
qed

theorem resolve_at_most_once_witness:
  "(let t = table_run [Allocated 0 5 0, Allocated 1 5 1, Allocated 1 5 2,
                       Responded 0 (Success ''ok'')] empty_table;
        p = \<lparr>correlation = 1, target = 1, issued = 1, deadline = 6\<rparr>
    in \<not> pending 0 t
       \<and> 0 \<in> set (map fst (delivered t))
       \<and> p \<in> set (entries t) \<and> deadline p \<le> 6 \<and> target p = 1
       \<and> fst (resolve 0 (Success ''again'') t) = False
       \<and> delivered (snd (resolve 0 (Success ''again'') t)) = [(0, Success ''ok'')]
       \<and> fst (resolve 1 (Success ''late'') (expire 6 t)) = False
       \<and> fst (resolve 1 (Success ''late'') (cancelAll 1 ConnectionLost t)) = False
       \<and> distinct (map fst (delivered t)))"
proof -
  have run: "table_run [Allocated 0 5 0, Allocated 1 5 1, Allocated 1 5 2,
                        Responded 0 (Success ''ok'')] empty_table
      = \<lparr>entries = [\<lparr>correlation = 1, target = 1, issued = 1, deadline = 6\<rparr>,
                    \<lparr>correlation = 2, target = 1, issued = 2, deadline = 7\<rparr>],
         next_correlation = 3, delivered = [(0, Success ''ok'')], dropped = []\<rparr>"
    by (simp add: table_run_def empty_table_def allocate_def resolve_def pending_def)
  show ?thesis
    using resolve_at_most_once
      [of 0 "Success ''again''"
          "table_run [Allocated 0 5 0, Allocated 1 5 1, Allocated 1 5 2,
                      Responded 0 (Success ''ok'')] empty_table"
          "Success ''late''"
          "\<lparr>correlation = 1, target = 1, issued = 1, deadline = 6\<rparr>" 6 1 ConnectionLost
          "[Allocated 0 5 0, Allocated 1 5 1, Allocated 1 5 2, Responded 0 (Success ''ok'')]"]
    unfolding run Let_def
    by (simp add: pending_def)
qed

subsection \<open>The registry and the call surface\<close>

lemma find_owner_None:
  "\<forall>c \<in> set cs. tab \<notin> known_tabs c \<Longrightarrow> find (\<lambda>c. tab \<in> known_tabs c) cs = None"
  by (simp add: find_None_iff)

lemma resolveTarget_owner:
  "resolveTarget (Some tab) r = Inr conn \<Longrightarrow>
     \<exists>c \<in> set (connections r). conn_ident c = conn \<and> tab \<in> known_tabs c"
  by (auto simp: find_Some_iff split: option.splits)

text \<open>
  The connection that reported a tab last is the one the tab resolves to, and a call
  that finds its target is given the next correlation id.
\<close>

lemma resolveTarget_after_register:
  "tab \<in> tabs \<Longrightarrow> resolveTarget (Some tab) (snd (register tabs now r)) = Inr (next_connection r)"
  by (simp add: register_def Let_def)

lemma resolveTarget_after_report:
  "find (\<lambda>c. conn_ident c = conn) (connections r) = Some c \<Longrightarrow> tab \<in> tabs \<Longrightarrow>
     resolveTarget (Some tab) (tabs_updated conn tabs now r) = Inr conn"
proof -
  assume found: "find (\<lambda>c. conn_ident c = conn) (connections r) = Some c" and "tab \<in> tabs"
  from found have "conn_ident c = conn"
    by (auto simp: find_Some_iff)
  with found \<open>tab \<in> tabs\<close> show ?thesis
    by (simp add: tabs_updated_def)
qed

lemma call_allocates:
  "resolveTarget tab (conn_registry b) = Inr conn \<Longrightarrow>
     fst (call operation tab args timeout now b) = Inr (next_correlation (corr_table b))"
  by (simp add: call_def allocate_def Let_def split: option.splits)

text \<open>
  Claim C4. When no registered connection has reported owning the tab,
  \<^verbatim>\<open>resolveTarget\<close> answers \<^verbatim>\<open>UnknownTab\<close> (it is a total function, so it always answers), and
  a \<^verbatim>\<open>call\<close> addressed to that tab fails with \<^verbatim>\<open>UnknownTab\<close> at once: the bridge is left
  as it was, so no correlation entry is allocated and no frame is written. Whenever
  \<^verbatim>\<open>resolveTarget\<close> does return a connection for a tab, that connection is registered and
  has reported the tab.
\<close>

theorem unknown_tab_fails:
  "((\<forall>c \<in> set (connections (conn_registry b)). tab \<notin> known_tabs c) \<longrightarrow>
      resolveTarget (Some tab) (conn_registry b) = Inl UnknownTab
      \<and> call operation (Some tab) args timeout now b = (Inl UnknownTab, b)
      \<and> frames_sent (snd (call operation (Some tab) args timeout now b)) = frames_sent b
      \<and> entries (corr_table (snd (call operation (Some tab) args timeout now b)))
          = entries (corr_table b))
   \<and> (resolveTarget (Some tab) (conn_registry b) = Inr conn \<longrightarrow>
        (\<exists>c \<in> set (connections (conn_registry b)). conn_ident c = conn \<and> tab \<in> known_tabs c))"
proof -
  have unknown: "resolveTarget (Some tab) (conn_registry b) = Inl UnknownTab"
    if "\<forall>c \<in> set (connections (conn_registry b)). tab \<notin> known_tabs c"
    using that by (simp add: find_owner_None)
  then have "call operation (Some tab) args timeout now b = (Inl UnknownTab, b)"
    if "\<forall>c \<in> set (connections (conn_registry b)). tab \<notin> known_tabs c"
    using that unfolding call_def by simp
  with unknown show ?thesis
    using resolveTarget_owner [of tab "conn_registry b" conn] by auto
qed

theorem unknown_tab_fails_witness:
  "(let r = \<lparr>connections = [\<lparr>conn_ident = 0, socket = [], known_tabs = {1, 2}, alive = True,
                              last_activity = 0\<rparr>],
             default_connection = Some 0, next_connection = 1\<rparr>;
        b = \<lparr>conn_registry = r, corr_table = empty_table\<rparr>
    in list_all (\<lambda>c. 7 \<notin> known_tabs c) (connections (conn_registry b))
       \<and> resolveTarget (Some 7) (conn_registry b) = Inl UnknownTab
       \<and> fst (call ''click_element'' (Some 7) [''elementId'' \<mapsto> PyStr ''e1''] 5 0 b)
           = Inl UnknownTab
       \<and> frames_sent (snd (call ''click_element'' (Some 7) [''elementId'' \<mapsto> PyStr ''e1''] 5 0 b))
           = []
       \<and> resolveTarget (Some 2) (conn_registry b) = Inr 0
       \<and> list_ex (\<lambda>c. conn_ident c = 0 \<and> 2 \<in> known_tabs c) (connections (conn_registry b)))"
  using
    unknown_tab_fails
      [of "\<lparr>conn_registry =
             \<lparr>connections = [\<lparr>conn_ident = 0, socket = [], known_tabs = {1, 2}, alive = True,
                               last_activity = 0\<rparr>],
              default_connection = Some 0, next_connection = 1\<rparr>,
            corr_table = empty_table\<rparr>"
          7 "''click_element''" "[''elementId'' \<mapsto> PyStr ''e1'']" 5 0 0]
    unknown_tab_fails
      [of "\<lparr>conn_registry =
             \<lparr>connections = [\<lparr>conn_ident = 0, socket = [], known_tabs = {1, 2}, alive = True,
                               last_activity = 0\<rparr>],
              default_connection = Some 0, next_connection = 1\<rparr>,
            corr_table = empty_table\<rparr>"
          2 "''click_element''" "[''elementId'' \<mapsto> PyStr ''e1'']" 5 0 0]
  by (simp add: Let_def frames_sent_def)

lemma remove_connection_gone:
  "c \<in> set (connections (remove_connection conn r)) \<Longrightarrow> conn_ident c \<noteq> conn"
  by (auto simp: remove_connection_def Let_def)

lemma awaited_delivered:
  "(cid, out) \<in> set (delivered (corr_table b)) \<Longrightarrow> awaited cid b \<noteq> None"
  unfolding awaited_def
  by (cases "map_of (delivered (corr_table b)) cid")
     (auto simp: map_of_eq_None_iff image_iff split: outcome.splits)

text \<open>
  Claim C5. Unregistering (closing) a connection resolves every PendingRequest addressed
  to it with a \<^verbatim>\<open>ConnectionLost\<close> failure, so none of its callers is left waiting;
  afterwards the table holds no entry that targets the connection, and the registry no
  longer holds the connection.
\<close>

theorem unregister_cancels_pending:
  "(\<forall>p \<in> set (entries (corr_table b)). target p = conn \<longrightarrow>
       (correlation p, Failure ConnectionLost)
         \<in> set (delivered (corr_table (unregister conn b)))
       \<and> awaited (correlation p) (unregister conn b) \<noteq> None)
   \<and> (\<forall>p \<in> set (entries (corr_table (unregister conn b))). target p \<noteq> conn)
   \<and> (\<forall>c \<in> set (connections (conn_registry (unregister conn b))). conn_ident c \<noteq> conn)"
proof -
  have t: "corr_table (unregister conn b) = cancelAll conn ConnectionLost (corr_table b)"
    and r: "conn_registry (unregister conn b) = remove_connection conn (conn_registry b)"
    by (simp_all add: unregister_def)
  have lost: "(correlation p, Failure ConnectionLost)
      \<in> set (delivered (corr_table (unregister conn b)))"
    if "p \<in> set (entries (corr_table b))" "target p = conn" for p
    unfolding t using that by (rule cancelAll_delivers)
  have "\<forall>p \<in> set (entries (corr_table (unregister conn b))). target p \<noteq> conn"
    unfolding t using cancelAll_no_target by blast
  moreover have "\<forall>c \<in> set (connections (conn_registry (unregister conn b))). conn_ident c \<noteq> conn"
    unfolding r using remove_connection_gone by blast
  ultimately show ?thesis
    using lost awaited_delivered by blast
qed

theorem unregister_cancels_pending_witness:
  "(let b = \<lparr>conn_registry =
               \<lparr>connections =
                  [\<lparr>conn_ident = 1, socket = [], known_tabs = {3}, alive = True,
                     last_activity = 0\<rparr>,
                   \<lparr>conn_ident = 0, socket = [], known_tabs = {1, 2}, alive = True,
                     last_activity = 0\<rparr>],
                default_connection = Some 0, next_connection = 2\<rparr>,
             corr_table =
               \<lparr>entries = [\<lparr>correlation = 0, target = 0, issued = 0, deadline = 5\<rparr>,
                            \<lparr>correlation = 1, target = 1, issued = 1, deadline = 6\<rparr>,
                            \<lparr>correlation = 2, target = 0, issued = 2, deadline = 7\<rparr>],
                next_correlation = 3, delivered = [], dropped = []\<rparr>\<rparr>
    in map target (entries (corr_table b)) = [0, 1, 0]
       \<and> delivered (corr_table (unregister 0 b))
           = [(0, Failure ConnectionLost), (2, Failure ConnectionLost)]
       \<and> awaited 0 (unregister 0 b) = Some (Inl ConnectionLost)
       \<and> awaited 2 (unregister 0 b) = Some (Inl ConnectionLost)
       \<and> map target (entries (corr_table (unregister 0 b))) = [1]
       \<and> map conn_ident (connections (conn_registry (unregister 0 b))) = [1])"
  using unregister_cancels_pending
    [of "\<lparr>conn_registry =
               \<lparr>connections =
                  [\<lparr>conn_ident = 1, socket = [], known_tabs = {3}, alive = True,
                     last_activity = 0\<rparr>,
                   \<lparr>conn_ident = 0, socket = [], known_tabs = {1, 2}, alive = True,
                     last_activity = 0\<rparr>],
                default_connection = Some 0, next_connection = 2\<rparr>,
             corr_table =
               \<lparr>entries = [\<lparr>correlation = 0, target = 0, issued = 0, deadline = 5\<rparr>,
                            \<lparr>correlation = 1, target = 1, issued = 1, deadline = 6\<rparr>,
                            \<lparr>correlation = 2, target = 0, issued = 2, deadline = 7\<rparr>],
                next_correlation = 3, delivered = [], dropped = []\<rparr>\<rparr>" 0]
  by (simp add: Let_def unregister_def cancelAll_def resolve_def pending_def
      remove_connection_def awaited_def)

subsection \<open>Shutdown order\<close>

lemma cleanup_trace_last: "last (cleanup_trace close_ctx s) = cleanup close_ctx s"
  by (simp add: cleanup_trace_def cleanup_def Let_def)

lemma context_close_no_entries: "entries (corr_table (context_close b)) = []"
  by (simp add: context_close_def resolve_each_entries)

lemma context_close_no_connections: "connections (conn_registry (context_close b)) = []"
  by (simp add: context_close_def)

lemma context_close_delivers:
  "p \<in> set (entries (corr_table b)) \<Longrightarrow>
     (correlation p, Failure ShuttingDown) \<in> set (delivered (corr_table (context_close b)))"
  by (auto simp: context_close_def resolve_each_delivered_set pending_def)

lemma cleanup_context: "shared_context (cleanup close_ctx s) = close_ctx (shared_context s)"
  by (simp add: cleanup_def Let_def log_info_def close_connections_def close_server_def
      await_server_closed_def split: option.splits)

lemma cleanup_listener:
  "ws_server (cleanup close_ctx s) = map_option (wait_closed \<circ> server_close) (ws_server s)"
  by (cases "ws_server s")
     (simp_all add: cleanup_def Let_def log_info_def close_connections_def close_server_def
        await_server_closed_def)

lemma cleanup_trace_listening:
  "ws_server s = Some Listening \<Longrightarrow>
     cleanup_trace close_ctx s =
       [s,
        log_info ''__main__'' ''Shutting down servers...'' s,
        (log_info ''__main__'' ''Shutting down servers...'' s)
          \<lparr>shared_context := close_ctx (shared_context s)\<rparr>,
        (log_info ''__main__'' ''Shutting down servers...'' s)
          \<lparr>shared_context := close_ctx (shared_context s), ws_server := Some Closing\<rparr>,
        (log_info ''__main__'' ''Shutting down servers...'' s)
          \<lparr>shared_context := close_ctx (shared_context s), ws_server := Some Closed\<rparr>,
        log_info ''__main__'' ''Shutdown complete''
          ((log_info ''__main__'' ''Shutting down servers...'' s)
             \<lparr>shared_context := close_ctx (shared_context s), ws_server := Some Closed\<rparr>)]"
  by (simp add: cleanup_trace_def Let_def log_info_def close_connections_def close_server_def
      await_server_closed_def server_close_def wait_closed_def)

text \<open>
  Claim C6. Started with the listener listening, \<^verbatim>\<open>cleanup\<close> first closes the context:
  every pending correlation entry is resolved with \<^verbatim>\<open>ShuttingDown\<close> and all connections
  are closed. Only then does it close the listener and wait for its release. In every
  state the run passes through in which the listener is no longer listening, no
  connection and no pending entry remains, and at the end the listener is closed. When
  the listener was never started there is nothing to release and the handle stays
  \<^verbatim>\<open>None\<close>.
\<close>

theorem cleanup_closes_connections_first:
  "(ws_server s = Some Listening \<longrightarrow>
      last (cleanup_trace context_close s) = cleanup context_close s
      \<and> (\<forall>st \<in> set (cleanup_trace context_close s).
            ws_server st \<noteq> Some Listening \<longrightarrow>
              connections (conn_registry (shared_context st)) = []
              \<and> entries (corr_table (shared_context st)) = [])
      \<and> ws_server (cleanup_trace context_close s ! 2) = Some Listening
      \<and> shared_context (cleanup_trace context_close s ! 2) = context_close (shared_context s)
      \<and> ws_server (cleanup_trace context_close s ! 3) = Some Closing
      \<and> ws_server (cleanup context_close s) = Some Closed)
   \<and> (ws_server s = None \<longrightarrow> ws_server (cleanup context_close s) = None)
   \<and> connections (conn_registry (shared_context (cleanup context_close s))) = []
   \<and> entries (corr_table (shared_context (cleanup context_close s))) = []
   \<and> (\<forall>p \<in> set (entries (corr_table (shared_context s))).
         (correlation p, Failure ShuttingDown)
           \<in> set (delivered (corr_table (shared_context (cleanup context_close s)))))"
proof -
  have listening: "ws_server s = Some Listening \<longrightarrow>
      last (cleanup_trace context_close s) = cleanup context_close s
      \<and> (\<forall>st \<in> set (cleanup_trace context_close s).
            ws_server st \<noteq> Some Listening \<longrightarrow>
              connections (conn_registry (shared_context st)) = []
              \<and> entries (corr_table (shared_context st)) = [])
      \<and> ws_server (cleanup_trace context_close s ! 2) = Some Listening
      \<and> shared_context (cleanup_trace context_close s ! 2) = context_close (shared_context s)
      \<and> ws_server (cleanup_trace context_close s ! 3) = Some Closing
      \<and> ws_server (cleanup context_close s) = Some Closed"
  proof
    assume l: "ws_server s = Some Listening"
    show "last (cleanup_trace context_close s) = cleanup context_close s
      \<and> (\<forall>st \<in> set (cleanup_trace context_close s).
            ws_server st \<noteq> Some Listening \<longrightarrow>
              connections (conn_registry (shared_context st)) = []
              \<and> entries (corr_table (shared_context st)) = [])
      \<and> ws_server (cleanup_trace context_close s ! 2) = Some Listening
      \<and> shared_context (cleanup_trace context_close s ! 2) = context_close (shared_context s)
      \<and> ws_server (cleanup_trace context_close s ! 3) = Some Closing
      \<and> ws_server (cleanup context_close s) = Some Closed"
      unfolding cleanup_trace_last cleanup_listener
      unfolding cleanup_trace_listening [OF l]
      using l
      by (simp add: log_info_def context_close_no_entries context_close_no_connections
          server_close_def wait_closed_def)
  qed
  have never_started: "ws_server s = None \<longrightarrow> ws_server (cleanup context_close s) = None"
    by (simp add: cleanup_listener)
  have quiet:
    "connections (conn_registry (shared_context (cleanup context_close s))) = []"
    "entries (corr_table (shared_context (cleanup context_close s))) = []"
    by (simp_all add: cleanup_context context_close_no_entries context_close_no_connections)
  have shutting_down: "\<forall>p \<in> set (entries (corr_table (shared_context s))).
         (correlation p, Failure ShuttingDown)
           \<in> set (delivered (corr_table (shared_context (cleanup context_close s))))"
    by (simp add: cleanup_context context_close_delivers)
  show ?thesis
    by (intro conjI) (rule listening never_started quiet shutting_down)+
qed

theorem cleanup_closes_connections_first_witness:
  "(let s = \<lparr>shared_context =
               \<lparr>conn_registry =
                  \<lparr>connections =
                     [\<lparr>conn_ident = 1, socket = [], known_tabs = {3}, alive = True,
                        last_activity = 0\<rparr>,
                      \<lparr>conn_ident = 0, socket = [], known_tabs = {1, 2}, alive = True,
                        last_activity = 0\<rparr>],
                   default_connection = Some 0, next_connection = 2\<rparr>,
                corr_table =
                  \<lparr>entries = [\<lparr>correlation = 0, target = 0, issued = 0, deadline = 5\<rparr>,
                               \<lparr>correlation = 1, target = 1, issued = 1, deadline = 6\<rparr>],
                   next_correlation = 2, delivered = [], dropped = []\<rparr>\<rparr>,
             ws_server = Some Listening, log_records = []\<rparr>
    in ws_server s = Some Listening
       \<and> map ws_server (cleanup_trace context_close s)
           = [Some Listening, Some Listening, Some Listening, Some Closing, Some Closed,
              Some Closed]
       \<and> map (\<lambda>st. length (connections (conn_registry (shared_context st))))
             (cleanup_trace context_close s) = [2, 2, 0, 0, 0, 0]
       \<and> map (\<lambda>st. length (entries (corr_table (shared_context st))))
             (cleanup_trace context_close s) = [2, 2, 0, 0, 0, 0]
       \<and> ws_server (cleanup context_close s) = Some Closed
       \<and> delivered (corr_table (shared_context (cleanup context_close s)))
           = [(0, Failure ShuttingDown), (1, Failure ShuttingDown)]
       \<and> log_records (cleanup context_close s)
           = [(''__main__'', ''Shutting down servers...''), (''__main__'', ''Shutdown complete'')])"
  using cleanup_closes_connections_first
    [of "\<lparr>shared_context =
               \<lparr>conn_registry =
                  \<lparr>connections =
                     [\<lparr>conn_ident = 1, socket = [], known_tabs = {3}, alive = True,
                        last_activity = 0\<rparr>,
                      \<lparr>conn_ident = 0, socket = [], known_tabs = {1, 2}, alive = True,
                        last_activity = 0\<rparr>],
                   default_connection = Some 0, next_connection = 2\<rparr>,
                corr_table =
                  \<lparr>entries = [\<lparr>correlation = 0, target = 0, issued = 0, deadline = 5\<rparr>,
                               \<lparr>correlation = 1, target = 1, issued = 1, deadline = 6\<rparr>],
                   next_correlation = 2, delivered = [], dropped = []\<rparr>\<rparr>,
             ws_server = Some Listening, log_records = []\<rparr>"]
  by (simp add: Let_def cleanup_trace_def cleanup_def log_info_def close_connections_def
      close_server_def await_server_closed_def server_close_def wait_closed_def
      context_close_def resolve_def pending_def)

end
